theory Spec2Isabelle
  imports Complex_Main "HOL-Library.Sublist"
begin

section \<open>Python values, dictionaries and strings\<close>

text \<open>
  The workflow of \<^verbatim>\<open>src/agent/graph.py\<close> threads one \<^verbatim>\<open>CollaborativeState\<close> through three
  step functions and two routers. The three agents behind the steps
  (\<^verbatim>\<open>swe_architect\<close>, \<^verbatim>\<open>sql_analyst\<close>, \<^verbatim>\<open>swe_developer\<close>) are external calls: every step
  takes its agent as a function argument, so each theorem holds for whatever the agent answers.

  Text is an Isabelle \<open>string\<close>: the UTF-8 bytes of the Python string, so that a byte below
  128 is an ASCII character and every byte of another code point is 128 or more.
\<close>

datatype py_error = IndexError

datatype pyval =
    PNone
  | PBool bool
  | PInt int
  | PFloat real
  | PStr string
  | PList "pyval list"
  | PDict "(string \<times> pyval) list"

type_synonym pydict = "(string \<times> pyval) list"

text \<open>\<^verbatim>\<open>d.get(k, default)\<close>\<close>

definition dict_get :: "pydict \<Rightarrow> string \<Rightarrow> pyval \<Rightarrow> pyval" where
  "dict_get d k dflt = (case map_of d k of None \<Rightarrow> dflt | Some v \<Rightarrow> v)"

text \<open>
  \<^verbatim>\<open>str(v)\<close> and the formatting of \<^verbatim>\<open>{v}\<close> in an f-string: a string is itself, every other
  value is printed by the interpreter's \<^verbatim>\<open>repr\<close>, which is an argument \<open>repr\<close> here.
\<close>

fun py_str :: "(pyval \<Rightarrow> string) \<Rightarrow> pyval \<Rightarrow> string" where
  "py_str repr (PStr s) = s"
| "py_str repr v = repr v"

text \<open>\<^verbatim>\<open>xs[-1]\<close>, which raises on an empty list.\<close>

definition py_last :: "'a list \<Rightarrow> py_error + 'a" where
  "py_last xs = (if xs = [] then Inl IndexError else Inr (last xs))"

text \<open>\<^verbatim>\<open>s in t\<close> on strings: \<open>s\<close> occurs in \<open>t\<close> as a contiguous block.\<close>

fun py_in :: "string \<Rightarrow> string \<Rightarrow> bool" where
  "py_in s [] = (s = [])"
| "py_in s (c # cs) = (prefix s (c # cs) \<or> py_in s cs)"

definition lower_char :: "char \<Rightarrow> char" where
  "lower_char c =
     (case map_of (zip ''ABCDEFGHIJKLMNOPQRSTUVWXYZ'' ''abcdefghijklmnopqrstuvwxyz'') c of
        None \<Rightarrow> c
      | Some d \<Rightarrow> d)"

text \<open>
  \<^verbatim>\<open>s.lower()\<close>. On an ASCII character \<^verbatim>\<open>str.lower\<close> is \<open>lower_char\<close>, wherever the
  character stands. What it yields for a code point outside ASCII is the interpreter's Unicode
  table: the result may hold ASCII letters (U+0130 gives \<^verbatim>\<open>i\<close> and U+0307) and may depend on
  the neighbours (a final sigma). That table is the argument \<open>ul\<close>, asked at every byte of
  128 or more with the text before and after it.
\<close>

type_synonym unicode_lower = "string \<Rightarrow> char \<Rightarrow> string \<Rightarrow> string"

fun lower_from :: "unicode_lower \<Rightarrow> string \<Rightarrow> string \<Rightarrow> string" where
  "lower_from ul before [] = []"
| "lower_from ul before (c # cs) =
     (if digit7 c then ul before c cs else [lower_char c]) @ lower_from ul (before @ [c]) cs"

definition lower :: "unicode_lower \<Rightarrow> string \<Rightarrow> string" where
  "lower ul s = lower_from ul [] s"


section \<open>The shared state\<close>

datatype message =
    HumanMessage (content: string)
  | AIMessage (content: string)
  | SystemMessage (content: string)

text \<open>
  Modelled from the spec: \<^verbatim>\<open>SQLAnalysisResult\<close> is declared in \<^verbatim>\<open>agent/analyst/state.py\<close>,
  which is not among the sources. The data model gives it as the record
  \<^verbatim>\<open>{query: text, explanation: text, confidence: number, warnings: ordered sequence of text}\<close>.
  An instance is an object without \<^verbatim>\<open>__bool__\<close> or \<^verbatim>\<open>__len__\<close>, so it is truthy whenever
  it is present.
\<close>

record SQLAnalysisResult =
  query :: string
  explanation :: string
  confidence :: real
  warnings :: "string list"

record CollaborativeState =
  implementation_research_scratchpad :: "message list"
  research_summary :: string
  implementation_plan :: pydict
  collaboration_plan :: pydict
  sql_analysis_result :: "SQLAnalysisResult option"
  sql_queries :: "string list"
  database_schema :: string

text \<open>
  A node returns a dictionary naming the fields it sets. \<open>None\<close> in a field of
  \<open>StateUpdate\<close> says that the key is not in the returned dictionary.
\<close>

record StateUpdate =
  upd_implementation_research_scratchpad :: "message list option"
  upd_research_summary :: "string option"
  upd_implementation_plan :: "pydict option"
  upd_collaboration_plan :: "pydict option"
  upd_sql_analysis_result :: "SQLAnalysisResult option option"
  upd_sql_queries :: "string list option"
  upd_database_schema :: "string option"

text \<open>
  Modelled from the spec: the graph runtime that merges a node's return value into the state
  is the LangGraph library, not part of the sources. The state record is "mutated by each
  node's return value (fields not returned are left unchanged -- a merge-by-field-name update,
  not full replacement)", and the scratchpad has "append-only merge semantics".
\<close>

definition apply_update :: "CollaborativeState \<Rightarrow> StateUpdate \<Rightarrow> CollaborativeState" where
  "apply_update state u =
     \<lparr> implementation_research_scratchpad =
         (case upd_implementation_research_scratchpad u of
            None \<Rightarrow> implementation_research_scratchpad state
          | Some ms \<Rightarrow> implementation_research_scratchpad state @ ms),
       research_summary =
         (case upd_research_summary u of None \<Rightarrow> research_summary state | Some v \<Rightarrow> v),
       implementation_plan =
         (case upd_implementation_plan u of None \<Rightarrow> implementation_plan state | Some v \<Rightarrow> v),
       collaboration_plan =
         (case upd_collaboration_plan u of None \<Rightarrow> collaboration_plan state | Some v \<Rightarrow> v),
       sql_analysis_result =
         (case upd_sql_analysis_result u of None \<Rightarrow> sql_analysis_result state | Some v \<Rightarrow> v),
       sql_queries =
         (case upd_sql_queries u of None \<Rightarrow> sql_queries state | Some v \<Rightarrow> v),
       database_schema =
         (case upd_database_schema u of None \<Rightarrow> database_schema state | Some v \<Rightarrow> v) \<rparr>"


section \<open>The routers\<close>

text \<open>
  A router returns the name of the branch; the graph maps \<^verbatim>\<open>"end"\<close> to the terminal node
  \<^verbatim>\<open>END\<close>. A strategy that is not a string equals neither literal.
\<close>

definition route_after_architect :: "CollaborativeState \<Rightarrow> string" where
  "route_after_architect state =
     (let strategy = dict_get (collaboration_plan state) ''strategy'' (PStr ''code_only'')
      in if strategy = PStr ''collaborative'' then ''sql_analyst''
         else if strategy = PStr ''sql_only'' then ''sql_analyst''
         else ''developer'')"

definition route_after_sql :: "CollaborativeState \<Rightarrow> string" where
  "route_after_sql state =
     (let strategy = dict_get (collaboration_plan state) ''strategy'' (PStr ''code_only'')
      in if strategy = PStr ''collaborative'' then ''developer''
         else ''end'')"


section \<open>The architect step\<close>

text \<open>
  The dictionary that \<^verbatim>\<open>swe_architect.invoke\<close> returns. Either key may be missing
  (\<open>None\<close>); a value has the type of the state field it is stored in.
\<close>

record ArchitectResult =
  res_research_summary :: "string option"
  res_implementation_plan :: "pydict option"

text \<open>Lines 32 to 35: the text the rubric is attached to.\<close>

definition architect_original_content :: "CollaborativeState \<Rightarrow> py_error + string" where
  "architect_original_content state =
     (if implementation_research_scratchpad state \<noteq> [] then
        (case py_last (implementation_research_scratchpad state) of
           Inl e \<Rightarrow> Inl e
         | Inr m \<Rightarrow> Inr (content m))
      else Inr ''No specific requirements provided'')"

text \<open>Lines 37 to 56: the f-string of \<^verbatim>\<open>enhanced_message\<close>, one literal for each source line.\<close>

definition enhanced_message_content :: "string \<Rightarrow> string" where
  "enhanced_message_content original_content = concat
     [''\<newline>'',
      ''    '', original_content, ''\<newline>'',
      ''    \<newline>'',
      ''    COLLABORATION ANALYSIS INSTRUCTIONS:\<newline>'',
      ''    Please analyze this request and determine what type of work is needed:\<newline>'',
      ''    \<newline>'',
      ''    1. If SQL/database analysis is needed, mark tasks with [SQL_REQUIRED]\<newline>'',
      ''    2. If software development is needed, mark tasks with [CODE_REQUIRED]  \<newline>'',
      ''    3. If both are needed, plan how they should work together\<newline>'',
      ''    \<newline>'',
      ''    Consider these indicators:\<newline>'',
      ''    - SQL needed: dashboards, analytics, reports, data visualization, database queries, KPIs, metrics\<newline>'',
      ''    - Code needed: applications, APIs, web development, implementation, software features\<newline>'',
      ''    - Both needed: data-driven applications, analytics dashboards, reporting systems\<newline>'',
      ''    \<newline>'',
      ''    Create a clear implementation plan that shows:\<newline>'',
      ''    - What data analysis/SQL work is needed (if any)\<newline>'',
      ''    - What software development work is needed (if any)  \<newline>'',
      ''    - How they should collaborate (if both are needed)\<newline>'',
      ''    '']"

text \<open>Lines 69 to 77: the two flags, as functions of \<^verbatim>\<open>plan_text\<close> and \<^verbatim>\<open>research_text\<close>.\<close>

definition needs_sql :: "unicode_lower \<Rightarrow> string \<Rightarrow> string \<Rightarrow> bool" where
  "needs_sql ul plan_text research_text =
     (py_in ''[SQL_REQUIRED]'' plan_text \<or>
      list_ex (\<lambda>keyword. py_in keyword (lower ul (plan_text @ research_text)))
        [''sql'', ''query'', ''database'', ''data analysis'', ''analytics'', ''dashboard'',
         ''report''])"

definition needs_code :: "unicode_lower \<Rightarrow> string \<Rightarrow> string \<Rightarrow> bool" where
  "needs_code ul plan_text research_text =
     (py_in ''[CODE_REQUIRED]'' plan_text \<or>
      list_ex (\<lambda>keyword. py_in keyword (lower ul (plan_text @ research_text)))
        [''implement'', ''develop'', ''code'', ''application'', ''api'', ''web'', ''software''])"

text \<open>Lines 80 to 103: the dictionary bound to \<^verbatim>\<open>collaboration_plan\<close>.\<close>

definition decide_collaboration_plan :: "bool \<Rightarrow> bool \<Rightarrow> pydict" where
  "decide_collaboration_plan sql code =
     (if sql \<and> code then
        [(''strategy'', PStr ''collaborative''),
         (''steps'', PList
            [PStr ''1. SQL Analyst: Analyze data requirements and create optimized queries'',
             PStr ''2. Pass SQL results to Developer'',
             PStr ''3. Developer: Implement application using SQL queries''])]
      else if sql then
        [(''strategy'', PStr ''sql_only''),
         (''steps'', PList [PStr ''1. SQL Analyst: Complete data analysis''])]
      else if code then
        [(''strategy'', PStr ''code_only''),
         (''steps'', PList [PStr ''1. Developer: Implement software solution''])]
      else
        [(''strategy'', PStr ''code_only''),
         (''steps'', PList [PStr ''1. Developer: Implement basic solution''])])"

text \<open>Lines 66, 67: \<^verbatim>\<open>str(result.get(key, ''))\<close> for the two keys of the result.\<close>

definition architect_plan_text :: "(pyval \<Rightarrow> string) \<Rightarrow> ArchitectResult \<Rightarrow> string" where
  "architect_plan_text repr result =
     py_str repr (case res_implementation_plan result of None \<Rightarrow> PStr [] | Some p \<Rightarrow> PDict p)"

definition architect_research_text :: "(pyval \<Rightarrow> string) \<Rightarrow> ArchitectResult \<Rightarrow> string" where
  "architect_research_text repr result =
     py_str repr (case res_research_summary result of None \<Rightarrow> PStr [] | Some s \<Rightarrow> PStr s)"

text \<open>Lines 65 to 109: what the step returns, given the architect's \<^verbatim>\<open>result\<close>.\<close>

definition architect_update ::
  "(pyval \<Rightarrow> string) \<Rightarrow> unicode_lower \<Rightarrow> ArchitectResult \<Rightarrow> StateUpdate" where
  "architect_update repr ul result =
     (let plan_text = architect_plan_text repr result;
          research_text = architect_research_text repr result;
          collaboration_plan =
            decide_collaboration_plan (needs_sql ul plan_text research_text)
              (needs_code ul plan_text research_text)
      in \<lparr> upd_implementation_research_scratchpad = None,
           upd_research_summary =
             Some (case res_research_summary result of None \<Rightarrow> [] | Some s \<Rightarrow> s),
           upd_implementation_plan =
             Some (case res_implementation_plan result of None \<Rightarrow> [] | Some p \<Rightarrow> p),
           upd_collaboration_plan = Some collaboration_plan,
           upd_sql_analysis_result = None,
           upd_sql_queries = None,
           upd_database_schema = None \<rparr>)"

definition enhanced_architect ::
  "(pyval \<Rightarrow> string) \<Rightarrow> unicode_lower \<Rightarrow> (message list \<Rightarrow> ArchitectResult)
    \<Rightarrow> CollaborativeState \<Rightarrow> py_error + StateUpdate" where
  "enhanced_architect repr ul swe_architect state =
     (case architect_original_content state of
        Inl e \<Rightarrow> Inl e
      | Inr original_content \<Rightarrow>
          (let enhanced_message = HumanMessage (enhanced_message_content original_content);
               enhanced_state = [enhanced_message];
               result = swe_architect enhanced_state
           in Inr (architect_update repr ul result)))"


section \<open>The SQL-analyst step\<close>

record SqlInput =
  requirements :: string
  schema_information :: string

text \<open>The dictionary that \<^verbatim>\<open>sql_analyst.invoke\<close> returns; the key may be missing.\<close>

record AnalystResult =
  res_sql_analysis_result :: "SQLAnalysisResult option"

text \<open>Line 128.\<close>

definition sql_original_request :: "CollaborativeState \<Rightarrow> py_error + string" where
  "sql_original_request state =
     (if implementation_research_scratchpad state \<noteq> [] then
        (case py_last (implementation_research_scratchpad state) of
           Inl e \<Rightarrow> Inl e
         | Inr m \<Rightarrow> Inr (content m))
      else Inr [])"

text \<open>Lines 130 to 139: the f-string of \<^verbatim>\<open>sql_requirements\<close>.\<close>

definition sql_requirements_text :: "string \<Rightarrow> string \<Rightarrow> string \<Rightarrow> string" where
  "sql_requirements_text original_request research_text plan_text = concat
     [''\<newline>'',
      ''    Original Request: '', original_request, ''\<newline>'',
      ''    \<newline>'',
      ''    Architect's Analysis: '', research_text, ''\<newline>'',
      ''    \<newline>'',
      ''    Implementation Plan Context: '', plan_text, ''\<newline>'',
      ''    \<newline>'',
      ''    Please create optimized SQL queries and analysis for this project.\<newline>'',
      ''    Focus on data extraction, performance, and how the results will be used.\<newline>'',
      ''    '']"

text \<open>Lines 126 to 144: the dictionary \<^verbatim>\<open>sql_input\<close>.\<close>

definition sql_input ::
  "(pyval \<Rightarrow> string) \<Rightarrow> CollaborativeState \<Rightarrow> string \<Rightarrow> SqlInput" where
  "sql_input repr state original_request =
     (let plan_text = py_str repr (PDict (implementation_plan state));
          research_text = research_summary state;
          sql_requirements = sql_requirements_text original_request research_text plan_text
      in \<lparr> requirements = sql_requirements,
           schema_information =
             (if database_schema state \<noteq> [] then database_schema state
              else ''Schema not provided - create optimal generic queries'') \<rparr>)"

text \<open>Lines 148 to 155: what the step returns, given the analyst's \<^verbatim>\<open>result\<close>.\<close>

definition sql_update :: "AnalystResult \<Rightarrow> StateUpdate" where
  "sql_update result =
     (let sql_result = res_sql_analysis_result result;
          queries =
            (case sql_result of
               None \<Rightarrow> []
             | Some r \<Rightarrow> if query r \<noteq> [] then [query r] else [])
      in \<lparr> upd_implementation_research_scratchpad = None,
           upd_research_summary = None,
           upd_implementation_plan = None,
           upd_collaboration_plan = None,
           upd_sql_analysis_result = Some sql_result,
           upd_sql_queries = Some queries,
           upd_database_schema = None \<rparr>)"

definition sql_analyst_step ::
  "(pyval \<Rightarrow> string) \<Rightarrow> (SqlInput \<Rightarrow> AnalystResult) \<Rightarrow> CollaborativeState
    \<Rightarrow> py_error + StateUpdate" where
  "sql_analyst_step repr sql_analyst state =
     (case sql_original_request state of
        Inl e \<Rightarrow> Inl e
      | Inr original_request \<Rightarrow>
          (let result = sql_analyst (sql_input repr state original_request)
           in Inr (sql_update result)))"


section \<open>The developer step\<close>

record DeveloperInput =
  dev_implementation_research_scratchpad :: "message list"
  dev_implementation_plan :: pydict

text \<open>Lines 174 to 190: the f-string of \<^verbatim>\<open>sql_context\<close>.\<close>

definition sql_context :: "(pyval \<Rightarrow> string) \<Rightarrow> SQLAnalysisResult \<Rightarrow> string" where
  "sql_context repr r = concat
     [''\<newline>'',
      ''        SQL ANALYSIS RESULTS:\<newline>'',
      ''        \<newline>'',
      ''        Query: '', query r, ''\<newline>'',
      ''        \<newline>'',
      ''        Explanation: '', explanation r, ''\<newline>'',
      ''        \<newline>'',
      ''        Confidence: '', py_str repr (PFloat (confidence r)), ''\<newline>'',
      ''        \<newline>'',
      ''        Warnings: '',
      (if warnings r \<noteq> [] then py_str repr (PList (map PStr (warnings r))) else ''None''),
      ''\<newline>'',
      ''        \<newline>'',
      ''        INTEGRATION INSTRUCTIONS:\<newline>'',
      ''        - Use the above SQL query in your implementation\<newline>'',
      ''        - Consider the data structure returned by this query  \<newline>'',
      ''        - Implement proper error handling for database operations\<newline>'',
      ''        - Add data validation and transformation as needed\<newline>'',
      ''        '']"

text \<open>Lines 196 to 201: the f-string of \<^verbatim>\<open>plan_context\<close>.\<close>

definition plan_context :: "(pyval \<Rightarrow> string) \<Rightarrow> CollaborativeState \<Rightarrow> string" where
  "plan_context repr state = concat
     [''\<newline>'',
      ''        ARCHITECT'S IMPLEMENTATION PLAN:\<newline>'',
      ''        '', py_str repr (PDict (implementation_plan state)), ''\<newline>'',
      ''        \<newline>'',
      ''        COLLABORATION STRATEGY: '',
      py_str repr (dict_get (collaboration_plan state) ''strategy'' (PStr ''unknown'')),
      ''\<newline>'',
      ''        '']"

text \<open>Lines 170 to 202: the list handed to the developer agent.\<close>

definition developer_messages :: "(pyval \<Rightarrow> string) \<Rightarrow> CollaborativeState \<Rightarrow> message list" where
  "developer_messages repr state =
     (let developer_messages = implementation_research_scratchpad state;
          developer_messages =
            (case sql_analysis_result state of
               None \<Rightarrow> developer_messages
             | Some r \<Rightarrow> developer_messages @ [AIMessage (sql_context repr r)]);
          developer_messages =
            (if implementation_plan state \<noteq> [] then
               developer_messages @ [AIMessage (plan_context repr state)]
             else developer_messages)
      in developer_messages)"

text \<open>The step returns what the developer agent returns, whatever its shape \<open>'r\<close>.\<close>

definition developer_step ::
  "(pyval \<Rightarrow> string) \<Rightarrow> (DeveloperInput \<Rightarrow> 'r) \<Rightarrow> CollaborativeState \<Rightarrow> 'r" where
  "developer_step repr swe_developer state =
     (let developer_input =
            \<lparr> dev_implementation_research_scratchpad = developer_messages repr state,
              dev_implementation_plan = implementation_plan state \<rparr>
      in swe_developer developer_input)"


section \<open>Reference values\<close>

text \<open>The state that the field defaults of \<^verbatim>\<open>CollaborativeState\<close> give.\<close>

definition default_state :: CollaborativeState where
  "default_state =
     \<lparr> implementation_research_scratchpad = [],
       research_summary = [],
       implementation_plan = [],
       collaboration_plan = [],
       sql_analysis_result = None,
       sql_queries = [],
       database_schema = [] \<rparr>"

text \<open>
  Two values of the lower-casing argument. \<open>keep_other\<close> leaves every byte outside ASCII as
  it is, which is \<^verbatim>\<open>str.lower\<close> on ASCII text. \<open>dotted_capital_I\<close> has the one rule for
  U+0130 (bytes C4 B0), which lower-cases to \<^verbatim>\<open>i\<close> followed by U+0307 (bytes CC 87).
\<close>

definition keep_other :: unicode_lower where
  "keep_other before c after = [c]"

definition dotted_capital_I :: unicode_lower where
  "dotted_capital_I before c after =
     (if c = CHR 0xC4 \<and> take 1 after = [CHR 0xB0] then [CHR ''i'', CHR 0xCC, CHR 0x87]
      else if c = CHR 0xB0 \<and> before \<noteq> [] \<and> last before = CHR 0xC4 then []
      else [c])"

text \<open>
  The decision table of the architect step as the specification prints it, row by row, to
  compare with \<open>decide_collaboration_plan\<close>.
\<close>

definition spec_strategy_table :: "bool \<Rightarrow> bool \<Rightarrow> string" where
  "spec_strategy_table sql code =
     (case (sql, code) of
        (True, True) \<Rightarrow> ''collaborative''
      | (True, False) \<Rightarrow> ''sql_only''
      | (False, True) \<Rightarrow> ''code_only''
      | (False, False) \<Rightarrow> ''code_only'')"


section \<open>Substring search and lower-casing\<close>

lemma py_in_sublist: "py_in s t = sublist s t"
  by (induction t) (simp_all add: sublist_Cons_right)

lemma lower_from_append:
  "\<exists>front. lower_from ul before (xs @ ys) = front @ lower_from ul (before @ xs) ys"
proof (induction xs arbitrary: before)
  case Nil
  then show ?case by simp
next
  case (Cons x xs)
  from Cons.IH [of "before @ [x]"] obtain front
    where "lower_from ul (before @ [x]) (xs @ ys) = front @ lower_from ul (before @ x # xs) ys"
    by auto
  then show ?case by simp
qed

lemma lower_from_ascii:
  "\<forall>c \<in> set m. \<not> digit7 c \<Longrightarrow>
     lower_from ul before (m @ rest) = map lower_char m @ lower_from ul (before @ m) rest"
  by (induction m arbitrary: before) simp_all

text \<open>
  The lower-cased marker \<^verbatim>\<open>[sql_required]\<close> contains the keyword \<^verbatim>\<open>sql\<close>, so a marker
  anywhere in the scanned text is found by the keyword test.
\<close>

lemma py_in_lower_marker_sql:
  assumes "py_in ''[SQL_REQUIRED]'' t"
  shows "py_in ''sql'' (lower ul (a @ t @ b))"
proof -
  from assms obtain p q where t: "t = p @ ''[SQL_REQUIRED]'' @ q"
    unfolding py_in_sublist sublist_def by blast
  have M: "map lower_char ''[SQL_REQUIRED]'' = ''['' @ ''sql'' @ ''_required]''"
    by (simp add: lower_char_def)
  have ascii: "\<forall>c \<in> set ''[SQL_REQUIRED]''. \<not> digit7 c"
    by simp
  have split: "a @ t @ b = (a @ p) @ (''[SQL_REQUIRED]'' @ (q @ b))"
    unfolding t by (simp only: append_assoc)
  obtain front where front:
    "lower ul (a @ t @ b) = front @ lower_from ul ([] @ (a @ p)) (''[SQL_REQUIRED]'' @ (q @ b))"
    unfolding lower_def split using lower_from_append by blast
  have "lower_from ul ([] @ (a @ p)) (''[SQL_REQUIRED]'' @ (q @ b))
      = map lower_char ''[SQL_REQUIRED]''
        @ lower_from ul (([] @ (a @ p)) @ ''[SQL_REQUIRED]'') (q @ b)"
    by (rule lower_from_ascii [OF ascii])
  with front have "lower ul (a @ t @ b)
      = (front @ ''['') @ ''sql''
        @ (''_required]'' @ lower_from ul (([] @ (a @ p)) @ ''[SQL_REQUIRED]'') (q @ b))"
    unfolding M by (simp only: append_assoc)
  then show ?thesis
    unfolding py_in_sublist sublist_def by blast
qed

text \<open>
  With the rule for U+0130 the keyword \<^verbatim>\<open>api\<close> is found in \<^verbatim>\<open>SQL AP\<close> followed by that
  letter, as the interpreter finds it; with no rule for it the keyword is not found.
\<close>

lemma needs_code_dotted_capital_I:
  "needs_code dotted_capital_I [] (''SQL AP'' @ [CHR 0xC4, CHR 0xB0])"
  "\<not> needs_code keep_other [] (''SQL AP'' @ [CHR 0xC4, CHR 0xB0])"
  by (simp_all add: needs_code_def lower_def lower_char_def dotted_capital_I_def keep_other_def)


section \<open>The classification flags\<close>

text \<open>
  Claim C4. Whenever the literal \<^verbatim>\<open>[SQL_REQUIRED]\<close> occurs in the plan text or in the research
  summary text, \<open>needs_sql\<close> is true, whatever else the texts hold. In the plan text the
  marker test finds it; in the summary the keyword \<^verbatim>\<open>sql\<close> matches inside the lower-cased
  marker.
\<close>

theorem marker_forces_needs_sql:
  "py_in ''[SQL_REQUIRED]'' plan_text \<or> py_in ''[SQL_REQUIRED]'' research_text
     \<Longrightarrow> needs_sql ul plan_text research_text"
proof (cases "py_in ''[SQL_REQUIRED]'' plan_text")
  case True
  then show ?thesis by (simp add: needs_sql_def)
next
  case False
  assume "py_in ''[SQL_REQUIRED]'' plan_text \<or> py_in ''[SQL_REQUIRED]'' research_text"
  with False have "py_in ''[SQL_REQUIRED]'' research_text" by simp
  from py_in_lower_marker_sql [OF this, of ul plan_text "[]"]
  show ?thesis by (simp add: needs_sql_def)
qed

theorem marker_forces_needs_sql_witness:
  "py_in ''[SQL_REQUIRED]'' ''Tasks: [SQL_REQUIRED] totals''
   \<and> needs_sql keep_other [] ''Tasks: [SQL_REQUIRED] totals''
   \<and> needs_sql keep_other ''[SQL_REQUIRED]'' []"
  using marker_forces_needs_sql
          [where plan_text = "[]" and research_text = "''Tasks: [SQL_REQUIRED] totals''"
             and ul = keep_other]
        marker_forces_needs_sql
          [where plan_text = "''[SQL_REQUIRED]''" and research_text = "[]" and ul = keep_other]
  by simp


section \<open>The steps always return\<close>

lemma architect_original_content_total:
  "architect_original_content st =
     Inr (if implementation_research_scratchpad st = [] then ''No specific requirements provided''
          else content (last (implementation_research_scratchpad st)))"
  by (simp add: architect_original_content_def py_last_def)

lemma sql_original_request_total:
  "sql_original_request st =
     Inr (if implementation_research_scratchpad st = [] then []
          else content (last (implementation_research_scratchpad st)))"
  by (simp add: sql_original_request_def py_last_def)

lemma enhanced_architect_Inr:
  "architect_original_content st = Inr oc \<Longrightarrow>
   enhanced_architect repr ul arch st =
     Inr (architect_update repr ul (arch [HumanMessage (enhanced_message_content oc)]))"
  by (simp add: enhanced_architect_def)

lemma sql_analyst_step_Inr:
  "sql_original_request st = Inr orq \<Longrightarrow>
   sql_analyst_step repr an st = Inr (sql_update (an (sql_input repr st orq)))"
  by (simp add: sql_analyst_step_def)

lemma strategy_decide:
  "map_of (decide_collaboration_plan sql code) ''strategy'' =
     Some (PStr (spec_strategy_table sql code))"
  by (simp add: decide_collaboration_plan_def spec_strategy_table_def)

lemma upd_collaboration_plan_architect_update:
  "upd_collaboration_plan (architect_update repr ul result) =
     Some (decide_collaboration_plan
       (needs_sql ul (architect_plan_text repr result) (architect_research_text repr result))
       (needs_code ul (architect_plan_text repr result) (architect_research_text repr result)))"
  by (simp add: architect_update_def Let_def)

lemma strategy_decide_range:
  "map_of (decide_collaboration_plan sql code) ''strategy''
     \<in> {Some (PStr ''collaborative''), Some (PStr ''sql_only''), Some (PStr ''code_only'')}"
  by (cases sql; cases code) (simp_all add: decide_collaboration_plan_def)

lemma py_in_concat_slice:
  assumes "take n (drop k xs) = mid"
  shows "py_in (concat mid) (concat xs)"
proof -
  have "xs = take k xs @ mid @ drop n (drop k xs)"
    unfolding assms [symmetric] by (simp only: append_take_drop_id)
  then have "concat xs = concat (take k xs) @ concat mid @ concat (drop n (drop k xs))"
    by (metis concat_append)
  then show ?thesis
    unfolding py_in_sublist sublist_def by blast
qed

lemma sql_context_fields:
  "py_in (concat [''        Query: '', query (r :: SQLAnalysisResult), ''\<newline>''])
     (sql_context repr r)"
  "py_in (concat [''        Explanation: '', explanation r, ''\<newline>'']) (sql_context repr r)"
  "py_in (concat [''        Confidence: '', py_str repr (PFloat (confidence r)), ''\<newline>''])
     (sql_context repr r)"
  "py_in (concat [''        Warnings: '',
                  (if warnings r \<noteq> [] then py_str repr (PList (map PStr (warnings r)))
                   else ''None''),
                  ''\<newline>''])
     (sql_context repr r)"
  unfolding sql_context_def
  by (rule py_in_concat_slice [where n = 3 and k = 3], simp,
      rule py_in_concat_slice [where n = 3 and k = 7], simp,
      rule py_in_concat_slice [where n = 3 and k = 11], simp,
      rule py_in_concat_slice [where n = 3 and k = 15], simp)

text \<open>Where the two prompts hold the text they are built around.\<close>

lemma enhanced_message_content_request:
  "prefix (concat [''\<newline>'', ''    '', original_content, ''\<newline>''])
     (enhanced_message_content original_content)"
  "py_in (concat [''    COLLABORATION ANALYSIS INSTRUCTIONS:\<newline>''])
     (enhanced_message_content original_content)"
  "py_in original_content (enhanced_message_content original_content)"
proof -
  show "prefix (concat [''\<newline>'', ''    '', original_content, ''\<newline>''])
     (enhanced_message_content original_content)"
    unfolding enhanced_message_content_def prefix_def by simp
  show "py_in (concat [''    COLLABORATION ANALYSIS INSTRUCTIONS:\<newline>''])
     (enhanced_message_content original_content)"
    unfolding enhanced_message_content_def
    by (rule py_in_concat_slice [where n = 1 and k = 5]) simp
  have "py_in (concat [original_content]) (enhanced_message_content original_content)"
    unfolding enhanced_message_content_def
    by (rule py_in_concat_slice [where n = 1 and k = 2]) simp
  then show "py_in original_content (enhanced_message_content original_content)"
    by simp
qed

lemma sql_input_request:
  "prefix (concat [''\<newline>'', ''    Original Request: '', original_request, ''\<newline>''])
     (requirements (sql_input repr st original_request))"
  "py_in (concat [''    Architect's Analysis: '', research_summary st, ''\<newline>''])
     (requirements (sql_input repr st original_request))"
proof -
  show "prefix (concat [''\<newline>'', ''    Original Request: '', original_request, ''\<newline>''])
     (requirements (sql_input repr st original_request))"
    unfolding sql_input_def sql_requirements_text_def Let_def prefix_def by simp
  show "py_in (concat [''    Architect's Analysis: '', research_summary st, ''\<newline>''])
     (requirements (sql_input repr st original_request))"
    unfolding sql_input_def sql_requirements_text_def Let_def SqlInput.simps
    by (rule py_in_concat_slice [where n = 3 and k = 5]) simp
qed


section \<open>Routing\<close>

text \<open>
  Claim C2. The router after the architect is a function of the \<^verbatim>\<open>strategy\<close> entry of
  \<open>collaboration_plan\<close> alone: \<^verbatim>\<open>collaborative\<close> and \<^verbatim>\<open>sql_only\<close> give \<^verbatim>\<open>sql_analyst\<close>, every
  other value gives \<^verbatim>\<open>developer\<close>, among them \<^verbatim>\<open>code_only\<close>, a value that is not a string and
  a missing entry. The result is always one of the two node names. The function has no
  failing branch: \<^verbatim>\<open>dict.get\<close> with a default does not raise.
\<close>

theorem route_after_architect_table:
  "(map_of (collaboration_plan st) ''strategy'' = Some (PStr ''collaborative'')
      \<longrightarrow> route_after_architect st = ''sql_analyst'')
   \<and> (map_of (collaboration_plan st) ''strategy'' = Some (PStr ''sql_only'')
      \<longrightarrow> route_after_architect st = ''sql_analyst'')
   \<and> (map_of (collaboration_plan st) ''strategy'' \<noteq> Some (PStr ''collaborative'')
       \<and> map_of (collaboration_plan st) ''strategy'' \<noteq> Some (PStr ''sql_only'')
      \<longrightarrow> route_after_architect st = ''developer'')
   \<and> (map_of (collaboration_plan st) ''strategy'' = Some (PStr ''code_only'')
      \<longrightarrow> route_after_architect st = ''developer'')
   \<and> (map_of (collaboration_plan st) ''strategy'' = None
      \<longrightarrow> route_after_architect st = ''developer'')
   \<and> route_after_architect st \<in> {''sql_analyst'', ''developer''}"
  by (auto simp: route_after_architect_def dict_get_def Let_def split: option.splits)

theorem route_after_architect_table_witness:
  "route_after_architect (default_state\<lparr>collaboration_plan := [(''strategy'', PStr ''collaborative'')]\<rparr>)
     = ''sql_analyst''
   \<and> route_after_architect (default_state\<lparr>collaboration_plan := [(''strategy'', PStr ''sql_only'')]\<rparr>)
     = ''sql_analyst''
   \<and> route_after_architect (default_state\<lparr>collaboration_plan := [(''strategy'', PStr ''code_only'')]\<rparr>)
     = ''developer''
   \<and> route_after_architect (default_state\<lparr>collaboration_plan := [(''strategy'', PInt 7)]\<rparr>)
     = ''developer''
   \<and> route_after_architect default_state = ''developer''"
  using route_after_architect_table
          [of "default_state\<lparr>collaboration_plan := [(''strategy'', PStr ''collaborative'')]\<rparr>"]
        route_after_architect_table
          [of "default_state\<lparr>collaboration_plan := [(''strategy'', PStr ''sql_only'')]\<rparr>"]
        route_after_architect_table
          [of "default_state\<lparr>collaboration_plan := [(''strategy'', PStr ''code_only'')]\<rparr>"]
        route_after_architect_table
          [of "default_state\<lparr>collaboration_plan := [(''strategy'', PInt 7)]\<rparr>"]
        route_after_architect_table [of default_state]
  by (simp add: default_state_def)

text \<open>
  Claim C3. The router after the SQL analyst sends \<^verbatim>\<open>collaborative\<close> to \<^verbatim>\<open>developer\<close> and
  every other strategy to \<^verbatim>\<open>end\<close>, the branch the graph maps to its terminal node; for
  \<^verbatim>\<open>sql_only\<close> the result is \<^verbatim>\<open>end\<close> and not \<^verbatim>\<open>developer\<close>.
\<close>

theorem route_after_sql_table:
  "(map_of (collaboration_plan st) ''strategy'' = Some (PStr ''collaborative'')
      \<longrightarrow> route_after_sql st = ''developer'')
   \<and> (map_of (collaboration_plan st) ''strategy'' \<noteq> Some (PStr ''collaborative'')
      \<longrightarrow> route_after_sql st = ''end'')
   \<and> (map_of (collaboration_plan st) ''strategy'' = Some (PStr ''sql_only'')
      \<longrightarrow> route_after_sql st = ''end'' \<and> route_after_sql st \<noteq> ''developer'')"
  by (auto simp: route_after_sql_def dict_get_def Let_def split: option.splits)

theorem route_after_sql_table_witness:
  "route_after_sql (default_state\<lparr>collaboration_plan := [(''strategy'', PStr ''collaborative'')]\<rparr>)
     = ''developer''
   \<and> route_after_sql (default_state\<lparr>collaboration_plan := [(''strategy'', PStr ''sql_only'')]\<rparr>)
     = ''end''
   \<and> route_after_sql default_state = ''end''"
  using route_after_sql_table
          [of "default_state\<lparr>collaboration_plan := [(''strategy'', PStr ''collaborative'')]\<rparr>"]
        route_after_sql_table
          [of "default_state\<lparr>collaboration_plan := [(''strategy'', PStr ''sql_only'')]\<rparr>"]
        route_after_sql_table [of default_state]
  by (simp add: default_state_def)

text \<open>
  Claim C7. Two states with the same \<open>collaboration_plan\<close> are routed alike by both routers,
  however their scratchpads and other fields differ.
\<close>

theorem routers_read_only_collaboration_plan:
  "collaboration_plan s1 = collaboration_plan s2 \<Longrightarrow>
     route_after_architect s1 = route_after_architect s2
     \<and> route_after_sql s1 = route_after_sql s2"
  by (simp add: route_after_architect_def route_after_sql_def)

theorem routers_read_only_collaboration_plan_witness:
  "collaboration_plan (default_state\<lparr>collaboration_plan := [(''strategy'', PStr ''sql_only'')]\<rparr>)
     = collaboration_plan
         (default_state
            \<lparr>implementation_research_scratchpad := [HumanMessage ''Build a dashboard''],
             collaboration_plan := [(''strategy'', PStr ''sql_only'')],
             sql_queries := [''SELECT 1''],
             database_schema := ''t(a)''\<rparr>)
   \<and> route_after_architect
         (default_state\<lparr>collaboration_plan := [(''strategy'', PStr ''sql_only'')]\<rparr>)
       = route_after_architect
           (default_state
              \<lparr>implementation_research_scratchpad := [HumanMessage ''Build a dashboard''],
               collaboration_plan := [(''strategy'', PStr ''sql_only'')],
               sql_queries := [''SELECT 1''],
               database_schema := ''t(a)''\<rparr>)
   \<and> route_after_sql
         (default_state\<lparr>collaboration_plan := [(''strategy'', PStr ''sql_only'')]\<rparr>)
       = route_after_sql
           (default_state
              \<lparr>implementation_research_scratchpad := [HumanMessage ''Build a dashboard''],
               collaboration_plan := [(''strategy'', PStr ''sql_only'')],
               sql_queries := [''SELECT 1''],
               database_schema := ''t(a)''\<rparr>)"
  using routers_read_only_collaboration_plan
          [of "default_state\<lparr>collaboration_plan := [(''strategy'', PStr ''sql_only'')]\<rparr>"
              "default_state
                 \<lparr>implementation_research_scratchpad := [HumanMessage ''Build a dashboard''],
                  collaboration_plan := [(''strategy'', PStr ''sql_only'')],
                  sql_queries := [''SELECT 1''],
                  database_schema := ''t(a)''\<rparr>"]
  by (simp add: default_state_def)


section \<open>The architect step: strategy and frame\<close>

text \<open>
  Claim C1. Every run of the architect step returns, and the \<^verbatim>\<open>strategy\<close> it writes into
  \<open>collaboration_plan\<close> is the entry of the decision table for the flags \<open>needs_sql\<close> and
  \<open>needs_code\<close> of the plan text and summary text the agent answered with. When neither marker
  occurs in either text and no keyword of either list occurs in the lower-cased texts, the
  strategy is \<^verbatim>\<open>code_only\<close>.
\<close>

theorem architect_strategy_table:
  "\<exists>original_content u cp.
     architect_original_content st = Inr original_content
     \<and> enhanced_architect repr ul arch st = Inr u
     \<and> upd_collaboration_plan u = Some cp
     \<and> collaboration_plan (apply_update st u) = cp
     \<and> (let result = arch [HumanMessage (enhanced_message_content original_content)];
            plan_text = architect_plan_text repr result;
            research_text = architect_research_text repr result
        in map_of cp ''strategy''
             = Some (PStr (spec_strategy_table (needs_sql ul plan_text research_text)
                             (needs_code ul plan_text research_text)))
         \<and> (\<not> py_in ''[SQL_REQUIRED]'' plan_text \<and> \<not> py_in ''[SQL_REQUIRED]'' research_text
            \<and> \<not> py_in ''[CODE_REQUIRED]'' plan_text \<and> \<not> py_in ''[CODE_REQUIRED]'' research_text
            \<and> (\<forall>keyword \<in> set [''sql'', ''query'', ''database'', ''data analysis'', ''analytics'',
                                 ''dashboard'', ''report'', ''implement'', ''develop'', ''code'',
                                 ''application'', ''api'', ''web'', ''software''].
                   \<not> py_in keyword (lower ul (plan_text @ research_text)))
            \<longrightarrow> map_of cp ''strategy'' = Some (PStr ''code_only'')))"
proof -
  obtain oc where oc: "architect_original_content st = Inr oc"
    by (simp add: architect_original_content_total)
  define result where "result = arch [HumanMessage (enhanced_message_content oc)]"
  define pt where "pt = architect_plan_text repr result"
  define rt where "rt = architect_research_text repr result"
  define cp where "cp = decide_collaboration_plan (needs_sql ul pt rt) (needs_code ul pt rt)"
  have run: "enhanced_architect repr ul arch st = Inr (architect_update repr ul result)"
    unfolding result_def by (rule enhanced_architect_Inr [OF oc])
  have cp: "upd_collaboration_plan (architect_update repr ul result) = Some cp"
    unfolding cp_def pt_def rt_def by (rule upd_collaboration_plan_architect_update)
  have merged: "collaboration_plan (apply_update st (architect_update repr ul result)) = cp"
    by (simp add: apply_update_def cp)
  have table: "map_of cp ''strategy''
      = Some (PStr (spec_strategy_table (needs_sql ul pt rt) (needs_code ul pt rt)))"
    unfolding cp_def by (rule strategy_decide)
  have none: "map_of cp ''strategy'' = Some (PStr ''code_only'')"
    if "\<not> py_in ''[SQL_REQUIRED]'' pt" "\<not> py_in ''[CODE_REQUIRED]'' pt"
       "\<forall>keyword \<in> set [''sql'', ''query'', ''database'', ''data analysis'', ''analytics'',
                                 ''dashboard'', ''report'', ''implement'', ''develop'', ''code'',
                                 ''application'', ''api'', ''web'', ''software''].
                   \<not> py_in keyword (lower ul (pt @ rt))"
  proof -
    from that have "\<not> needs_sql ul pt rt" "\<not> needs_code ul pt rt"
      by (simp_all add: needs_sql_def needs_code_def)
    then show ?thesis
      by (simp add: table spec_strategy_table_def)
  qed
  show ?thesis
    apply (rule exI [of _ oc])
    apply (rule exI [of _ "architect_update repr ul result"])
    apply (rule exI [of _ cp])
    unfolding Let_def
    using oc run cp merged table none
    unfolding result_def pt_def rt_def
    by blast
qed

theorem architect_strategy_table_witness:
  "\<exists>u cp. enhanced_architect (\<lambda>v. ''{}'') keep_other
            (\<lambda>ms. \<lparr>res_research_summary = Some ''Greet the user'', res_implementation_plan = None\<rparr>)
            default_state = Inr u
     \<and> upd_collaboration_plan u = Some cp
     \<and> map_of cp ''strategy'' = Some (PStr ''code_only'')"
  using architect_strategy_table
          [where st = default_state and repr = "\<lambda>v. ''{}''" and ul = keep_other
             and arch = "\<lambda>ms. \<lparr>res_research_summary = Some ''Greet the user'',
                                res_implementation_plan = None\<rparr>"]
  by (simp add: Let_def architect_plan_text_def architect_research_text_def lower_def
        lower_char_def) blast

text \<open>
  Claim C6. After the architect step the \<^verbatim>\<open>strategy\<close> entry of \<open>collaboration_plan\<close> is one
  of \<^verbatim>\<open>collaborative\<close>, \<^verbatim>\<open>sql_only\<close>, \<^verbatim>\<open>code_only\<close>. The SQL-analyst step returns no
  \<open>collaboration_plan\<close>, so the merge keeps the plan. With no \<^verbatim>\<open>strategy\<close> entry, the lookup
  both routers make yields \<^verbatim>\<open>code_only\<close>, and both route as they do for \<^verbatim>\<open>code_only\<close>.
\<close>

theorem strategy_invariant:
  "(\<exists>u. enhanced_architect repr ul arch st = Inr u
      \<and> map_of (collaboration_plan (apply_update st u)) ''strategy''
          \<in> {Some (PStr ''collaborative''), Some (PStr ''sql_only''), Some (PStr ''code_only'')})
   \<and> (\<exists>u. sql_analyst_step repr an st = Inr u
      \<and> upd_collaboration_plan u = None
      \<and> collaboration_plan (apply_update st u) = collaboration_plan st)
   \<and> (map_of (collaboration_plan st) ''strategy'' = None
      \<longrightarrow> dict_get (collaboration_plan st) ''strategy'' (PStr ''code_only'') = PStr ''code_only''
        \<and> route_after_architect st
            = route_after_architect (st\<lparr>collaboration_plan := [(''strategy'', PStr ''code_only'')]\<rparr>)
        \<and> route_after_sql st
            = route_after_sql (st\<lparr>collaboration_plan := [(''strategy'', PStr ''code_only'')]\<rparr>))"
proof (intro conjI)
  show "\<exists>u. enhanced_architect repr ul arch st = Inr u
      \<and> map_of (collaboration_plan (apply_update st u)) ''strategy''
          \<in> {Some (PStr ''collaborative''), Some (PStr ''sql_only''), Some (PStr ''code_only'')}"
    by (simp add: enhanced_architect_Inr [OF architect_original_content_total]
          apply_update_def upd_collaboration_plan_architect_update strategy_decide_range
          del: insert_iff)
  show "\<exists>u. sql_analyst_step repr an st = Inr u
      \<and> upd_collaboration_plan u = None
      \<and> collaboration_plan (apply_update st u) = collaboration_plan st"
    by (simp add: sql_analyst_step_Inr [OF sql_original_request_total]
          sql_update_def apply_update_def Let_def)
  show "map_of (collaboration_plan st) ''strategy'' = None
      \<longrightarrow> dict_get (collaboration_plan st) ''strategy'' (PStr ''code_only'') = PStr ''code_only''
        \<and> route_after_architect st
            = route_after_architect (st\<lparr>collaboration_plan := [(''strategy'', PStr ''code_only'')]\<rparr>)
        \<and> route_after_sql st
            = route_after_sql (st\<lparr>collaboration_plan := [(''strategy'', PStr ''code_only'')]\<rparr>)"
    by (simp add: route_after_architect_def route_after_sql_def dict_get_def)
qed

theorem strategy_invariant_witness:
  "map_of (collaboration_plan default_state) ''strategy'' = None
   \<and> route_after_architect default_state
       = route_after_architect
           (default_state\<lparr>collaboration_plan := [(''strategy'', PStr ''code_only'')]\<rparr>)
   \<and> route_after_sql default_state
       = route_after_sql (default_state\<lparr>collaboration_plan := [(''strategy'', PStr ''code_only'')]\<rparr>)"
  using strategy_invariant
          [where repr = "\<lambda>v. ''{}''" and ul = keep_other
             and arch = "\<lambda>ms. \<lparr>res_research_summary = None, res_implementation_plan = None\<rparr>"
             and st = default_state
             and an = "\<lambda>i. \<lparr>res_sql_analysis_result = None\<rparr>"]
  by (simp add: default_state_def)

text \<open>
  Claim C8. The architect step always returns, and its return value names exactly the fields
  \<open>research_summary\<close>, \<open>implementation_plan\<close> and \<open>collaboration_plan\<close>. After the merge the
  scratchpad, \<open>sql_analysis_result\<close>, \<open>sql_queries\<close> and \<open>database_schema\<close> are what they were:
  the message built for the architect agent does not reach the shared scratchpad.
\<close>

theorem architect_frame:
  "\<exists>u. enhanced_architect repr ul arch st = Inr u
     \<and> upd_research_summary u \<noteq> None
     \<and> upd_implementation_plan u \<noteq> None
     \<and> upd_collaboration_plan u \<noteq> None
     \<and> upd_implementation_research_scratchpad u = None
     \<and> upd_sql_analysis_result u = None
     \<and> upd_sql_queries u = None
     \<and> upd_database_schema u = None
     \<and> implementation_research_scratchpad (apply_update st u)
         = implementation_research_scratchpad st
     \<and> sql_analysis_result (apply_update st u) = sql_analysis_result st
     \<and> sql_queries (apply_update st u) = sql_queries st
     \<and> database_schema (apply_update st u) = database_schema st"
  by (simp add: enhanced_architect_Inr [OF architect_original_content_total]
        architect_update_def apply_update_def Let_def)


section \<open>The SQL-analyst and developer steps\<close>

text \<open>
  Claim C5. The SQL-analyst step always returns. When the analyst's answer holds a result
  whose query \<open>Q\<close> is not empty, \<open>sql_queries\<close> is \<open>[Q]\<close>, in the returned update and in the
  merged state; when the result is missing or its query is empty, \<open>sql_queries\<close> is \<open>[]\<close>.
\<close>

theorem sql_queries_from_result:
  "\<exists>original_request u.
     sql_original_request st = Inr original_request
     \<and> sql_analyst_step repr an st = Inr u
     \<and> (let sql_result = res_sql_analysis_result (an (sql_input repr st original_request))
        in (\<forall>r. sql_result = Some r \<and> query r \<noteq> []
               \<longrightarrow> upd_sql_queries u = Some [query r]
                   \<and> sql_queries (apply_update st u) = [query r])
         \<and> (sql_result = None \<or> (\<exists>r. sql_result = Some r \<and> query r = [])
               \<longrightarrow> upd_sql_queries u = Some []
                   \<and> sql_queries (apply_update st u) = []))"
  by (auto simp: sql_original_request_total sql_analyst_step_Inr [OF sql_original_request_total]
        sql_update_def apply_update_def Let_def)

theorem sql_queries_from_result_witness:
  "(\<exists>u. sql_analyst_step (\<lambda>v. ''{}'')
          (\<lambda>i. \<lparr>res_sql_analysis_result =
                  Some \<lparr>query = ''SELECT 1'', explanation = ''one row'', confidence = 1,
                        warnings = []\<rparr>\<rparr>)
          default_state = Inr u
        \<and> upd_sql_queries u = Some [''SELECT 1'']
        \<and> sql_queries (apply_update default_state u) = [''SELECT 1''])
   \<and> (\<exists>u. sql_analyst_step (\<lambda>v. ''{}'')
          (\<lambda>i. \<lparr>res_sql_analysis_result =
                  Some \<lparr>query = [], explanation = ''nothing'', confidence = 0,
                        warnings = []\<rparr>\<rparr>)
          default_state = Inr u
        \<and> upd_sql_queries u = Some []
        \<and> sql_queries (apply_update default_state u) = [])
   \<and> (\<exists>u. sql_analyst_step (\<lambda>v. ''{}'') (\<lambda>i. \<lparr>res_sql_analysis_result = None\<rparr>)
          default_state = Inr u
        \<and> upd_sql_queries u = Some []
        \<and> sql_queries (apply_update default_state u) = [])"
  using sql_queries_from_result
          [of default_state "\<lambda>v. ''{}''"
              "\<lambda>i. \<lparr>res_sql_analysis_result =
                  Some \<lparr>query = ''SELECT 1'', explanation = ''one row'', confidence = 1,
                        warnings = []\<rparr>\<rparr>"]
        sql_queries_from_result
          [of default_state "\<lambda>v. ''{}''"
              "\<lambda>i. \<lparr>res_sql_analysis_result =
                  Some \<lparr>query = [], explanation = ''nothing'', confidence = 0,
                        warnings = []\<rparr>\<rparr>"]
        sql_queries_from_result
          [of default_state "\<lambda>v. ''{}''" "\<lambda>i. \<lparr>res_sql_analysis_result = None\<rparr>"]
  by (simp add: Let_def)

text \<open>
  Claim C9. With a SQL result in the state, the developer step appends one assistant message
  to its copy of the scratchpad, \<open>sql_context\<close>, which shows the query, the explanation, the
  confidence and the warnings, an empty warnings list as the text \<^verbatim>\<open>None\<close>. Without a SQL
  result nothing but the plan message, if any, follows the scratchpad. The list so built is
  what the developer agent receives.
\<close>

theorem developer_sql_message:
  "(\<forall>r. sql_analysis_result st = Some r \<longrightarrow>
       developer_messages repr st
         = implementation_research_scratchpad st @ [AIMessage (sql_context repr r)]
           @ (if implementation_plan st \<noteq> [] then [AIMessage (plan_context repr st)] else [])
       \<and> py_in (concat [''        Query: '', query r, ''\<newline>'']) (sql_context repr r)
       \<and> py_in (concat [''        Explanation: '', explanation r, ''\<newline>''])
           (sql_context repr r)
       \<and> py_in (concat [''        Confidence: '', py_str repr (PFloat (confidence r)),
                        ''\<newline>''])
           (sql_context repr r)
       \<and> (warnings r = [] \<longrightarrow> py_in ''        Warnings: None\<newline>'' (sql_context repr r))
       \<and> (warnings r \<noteq> [] \<longrightarrow>
            py_in (concat [''        Warnings: '', py_str repr (PList (map PStr (warnings r))),
                           ''\<newline>''])
              (sql_context repr r)))
   \<and> (sql_analysis_result st = None \<longrightarrow>
       developer_messages repr st
         = implementation_research_scratchpad st
           @ (if implementation_plan st \<noteq> [] then [AIMessage (plan_context repr st)] else []))
   \<and> developer_step repr dev st
       = dev \<lparr> dev_implementation_research_scratchpad = developer_messages repr st,
               dev_implementation_plan = implementation_plan st \<rparr>"
proof (intro conjI allI impI)
  fix r
  assume "sql_analysis_result st = Some r"
  then show "developer_messages repr st
         = implementation_research_scratchpad st @ [AIMessage (sql_context repr r)]
           @ (if implementation_plan st \<noteq> [] then [AIMessage (plan_context repr st)] else [])"
    by (simp add: developer_messages_def)
next
  fix r :: SQLAnalysisResult
  assume "warnings r = []"
  with sql_context_fields(4) [where r = r and repr = repr]
  show "py_in ''        Warnings: None\<newline>'' (sql_context repr r)"
    by simp
next
  fix r :: SQLAnalysisResult
  assume "warnings r \<noteq> []"
  with sql_context_fields(4) [where r = r and repr = repr]
  show "py_in (concat [''        Warnings: '', py_str repr (PList (map PStr (warnings r))),
                           ''\<newline>''])
              (sql_context repr r)"
    by simp
next
  assume "sql_analysis_result st = None"
  then show "developer_messages repr st
         = implementation_research_scratchpad st
           @ (if implementation_plan st \<noteq> [] then [AIMessage (plan_context repr st)] else [])"
    by (simp add: developer_messages_def)
next
  show "developer_step repr dev st
       = dev \<lparr> dev_implementation_research_scratchpad = developer_messages repr st,
               dev_implementation_plan = implementation_plan st \<rparr>"
    by (simp add: developer_step_def)
qed (rule sql_context_fields)+

theorem developer_sql_message_witness:
  "developer_messages (\<lambda>v. ''1.0'')
      (default_state\<lparr>sql_analysis_result :=
         Some \<lparr>query = ''SELECT 1'', explanation = ''one row'', confidence = 1, warnings = []\<rparr>\<rparr>)
     = [AIMessage (sql_context (\<lambda>v. ''1.0'')
          \<lparr>query = ''SELECT 1'', explanation = ''one row'', confidence = 1, warnings = []\<rparr>)]
   \<and> py_in ''        Warnings: None\<newline>''
       (sql_context (\<lambda>v. ''1.0'')
          \<lparr>query = ''SELECT 1'', explanation = ''one row'', confidence = 1, warnings = []\<rparr>)
   \<and> py_in ''        Warnings: [w]\<newline>''
       (sql_context (\<lambda>v. if v = PList [PStr ''w''] then ''[w]'' else ''1.0'')
          \<lparr>query = ''SELECT 1'', explanation = ''one row'', confidence = 1, warnings = [''w'']\<rparr>)
   \<and> developer_messages (\<lambda>v. ''1.0'') default_state = []"
  using developer_sql_message
          [of "default_state\<lparr>sql_analysis_result :=
                 Some \<lparr>query = ''SELECT 1'', explanation = ''one row'', confidence = 1,
                       warnings = []\<rparr>\<rparr>"
              "\<lambda>v. ''1.0''" id]
        developer_sql_message
          [of "default_state\<lparr>sql_analysis_result :=
                 Some \<lparr>query = ''SELECT 1'', explanation = ''one row'', confidence = 1,
                       warnings = [''w'']\<rparr>\<rparr>"
              "\<lambda>v. if v = PList [PStr ''w''] then ''[w]'' else ''1.0''" id]
        developer_sql_message [of default_state "\<lambda>v. ''1.0''" id]
  by (simp add: default_state_def)

text \<open>
  Claim C10. On an empty scratchpad no step reads a last message. The architect step
  returns, having called its agent with one message: the rubric built around the placeholder
  \<^verbatim>\<open>No specific requirements provided\<close>, which stands in its first line. The SQL-analyst step
  returns, having called its agent with requirements whose \<^verbatim>\<open>Original Request:\<close> line holds
  the empty string. The developer step hands its agent only the messages it builds.
\<close>

theorem steps_total_on_empty_scratchpad:
  "implementation_research_scratchpad st = [] \<Longrightarrow>
     architect_original_content st = Inr ''No specific requirements provided''
     \<and> enhanced_architect repr ul arch st
         = Inr (architect_update repr ul
                 (arch [HumanMessage
                         (enhanced_message_content ''No specific requirements provided'')]))
     \<and> prefix ''\<newline>    No specific requirements provided\<newline>''
          (enhanced_message_content ''No specific requirements provided'')
     \<and> py_in ''    COLLABORATION ANALYSIS INSTRUCTIONS:\<newline>''
          (enhanced_message_content ''No specific requirements provided'')
     \<and> sql_original_request st = Inr []
     \<and> sql_analyst_step repr an st = Inr (sql_update (an (sql_input repr st [])))
     \<and> prefix ''\<newline>    Original Request: \<newline>'' (requirements (sql_input repr st []))
     \<and> py_in (concat [''    Architect's Analysis: '', research_summary st, ''\<newline>''])
          (requirements (sql_input repr st []))
     \<and> developer_step repr dev st
         = dev \<lparr> dev_implementation_research_scratchpad =
                   (case sql_analysis_result st of
                      None \<Rightarrow> []
                    | Some r \<Rightarrow> [AIMessage (sql_context repr r)])
                   @ (if implementation_plan st \<noteq> [] then [AIMessage (plan_context repr st)]
                      else []),
                 dev_implementation_plan = implementation_plan st \<rparr>"
proof (intro conjI)
  assume empty: "implementation_research_scratchpad st = []"
  then show "architect_original_content st = Inr ''No specific requirements provided''"
    by (simp add: architect_original_content_def)
  then show "enhanced_architect repr ul arch st
         = Inr (architect_update repr ul
                 (arch [HumanMessage
                         (enhanced_message_content ''No specific requirements provided'')]))"
    by (rule enhanced_architect_Inr)
  show "prefix ''\<newline>    No specific requirements provided\<newline>''
          (enhanced_message_content ''No specific requirements provided'')"
    using enhanced_message_content_request(1) [of "''No specific requirements provided''"]
    by simp
  show "py_in ''    COLLABORATION ANALYSIS INSTRUCTIONS:\<newline>''
          (enhanced_message_content ''No specific requirements provided'')"
    using enhanced_message_content_request(2) [of "''No specific requirements provided''"]
    by simp
  from empty show request: "sql_original_request st = Inr []"
    by (simp add: sql_original_request_def)
  then show "sql_analyst_step repr an st = Inr (sql_update (an (sql_input repr st [])))"
    by (rule sql_analyst_step_Inr)
  show "prefix ''\<newline>    Original Request: \<newline>'' (requirements (sql_input repr st []))"
    using sql_input_request(1) [of "[]" repr st] by simp
  show "py_in (concat [''    Architect's Analysis: '', research_summary st, ''\<newline>''])
          (requirements (sql_input repr st []))"
    by (rule sql_input_request(2))
  from empty show "developer_step repr dev st
         = dev \<lparr> dev_implementation_research_scratchpad =
                   (case sql_analysis_result st of
                      None \<Rightarrow> []
                    | Some r \<Rightarrow> [AIMessage (sql_context repr r)])
                   @ (if implementation_plan st \<noteq> [] then [AIMessage (plan_context repr st)]
                      else []),
                 dev_implementation_plan = implementation_plan st \<rparr>"
    by (simp add: developer_step_def developer_messages_def split: option.splits)
qed

theorem steps_total_on_empty_scratchpad_witness:
  "implementation_research_scratchpad default_state = []
   \<and> enhanced_architect (\<lambda>v. ''{}'') keep_other
        (\<lambda>ms. \<lparr>res_research_summary = None, res_implementation_plan = None\<rparr>) default_state
       = Inr (architect_update (\<lambda>v. ''{}'') keep_other
               \<lparr>res_research_summary = None, res_implementation_plan = None\<rparr>)
   \<and> enhanced_architect (\<lambda>v. ''{}'') keep_other
        (\<lambda>ms. \<lparr>res_research_summary = Some (content (last ms)), res_implementation_plan = None\<rparr>)
        default_state
       = Inr (architect_update (\<lambda>v. ''{}'') keep_other
               \<lparr>res_research_summary =
                   Some (enhanced_message_content ''No specific requirements provided''),
                 res_implementation_plan = None\<rparr>)
   \<and> sql_analyst_step (\<lambda>v. ''{}'') (\<lambda>i. \<lparr>res_sql_analysis_result = None\<rparr>) default_state
       = Inr (sql_update \<lparr>res_sql_analysis_result = None\<rparr>)
   \<and> prefix ''\<newline>    Original Request: \<newline>''
        (requirements (sql_input (\<lambda>v. ''{}'') default_state []))
   \<and> developer_step (\<lambda>v. ''{}'') dev_implementation_research_scratchpad default_state = []"
  using steps_total_on_empty_scratchpad
          [where st = default_state and repr = "\<lambda>v. ''{}''" and ul = keep_other
             and arch = "\<lambda>ms. \<lparr>res_research_summary = None, res_implementation_plan = None\<rparr>"
             and an = "\<lambda>i. \<lparr>res_sql_analysis_result = None\<rparr>"
             and dev = dev_implementation_research_scratchpad]
        steps_total_on_empty_scratchpad
          [where st = default_state and repr = "\<lambda>v. ''{}''" and ul = keep_other
             and arch = "\<lambda>ms. \<lparr>res_research_summary = Some (content (last ms)),
                                res_implementation_plan = None\<rparr>"
             and an = "\<lambda>i. \<lparr>res_sql_analysis_result = None\<rparr>"
             and dev = dev_implementation_research_scratchpad]
  by (simp add: default_state_def)

end
